theory Spec2Isabelle
  imports Main "HOL-Library.Word" "HOL-Library.Sublist"
begin

unbundle bit_operations_syntax

section \<open>Data model of scripts/kobo\_drm\_poc.py\<close>

text \<open>
  Python \<open>bytes\<close> are lists of 8-bit words; indexing a \<open>bytes\<close> object yields the
  unsigned value of the byte (\<open>unat\<close>). Python \<open>str\<close> is \<open>string\<close>; a character
  above 127 stands for a non-ASCII code point.
\<close>

type_synonym byte = "8 word"
type_synonym bytes = "byte list"

text \<open>The exceptions the script can raise, as values.\<close>

datatype error =
    FileNotFoundError
  | ValueError
  | IndexError
  | KeyError
  | UnicodeEncodeError
  | BinasciiError
  | StopIteration

section \<open>Padding removal\<close>

text \<open>
  Python's \<open>data[:stop]\<close>: a negative \<open>stop\<close> counts from the end, and the bound
  is clamped to the range of the sequence.
\<close>

definition slice_to :: "int \<Rightarrow> 'a list \<Rightarrow> 'a list" where
  "slice_to stop xs =
     (let n = int (length xs);
          s = (if stop < 0 then max 0 (stop + n) else min stop n)
      in take (nat s) xs)"

text \<open>
  \<^verbatim>\<open>
  def pkcs7_unpad(data):
      padding_length = data[-1]
      return data[:-padding_length]
  \<close>
  \<open>data[-1]\<close> raises \<open>IndexError\<close> on empty input.
\<close>

definition pkcs7_unpad :: "bytes \<Rightarrow> error + bytes" where
  "pkcs7_unpad data =
     (if data = [] then Inl IndexError
      else let padding_length = int (unat (last data))
           in Inr (slice_to (- padding_length) data))"

text \<open>The cipher's block size in bytes.\<close>

definition block_size :: nat where
  "block_size = 16"

section \<open>Text and hexadecimal helpers\<close>

text \<open>\<open>s.encode("ascii")\<close> raises on any character above 127.\<close>

definition is_ascii :: "string \<Rightarrow> bool" where
  "is_ascii s = list_all (\<lambda>c. (of_char c :: nat) < 128) s"

definition encode_ascii :: "string \<Rightarrow> error + bytes" where
  "encode_ascii s = (if is_ascii s then Inr (map of_char s) else Inl UnicodeEncodeError)"

text \<open>\<open>hexdigest()\<close>: two lowercase hexadecimal digits per byte.\<close>

definition hex_digit :: "nat \<Rightarrow> char" where
  "hex_digit n = ''0123456789abcdef'' ! n"

definition hex_of_byte :: "byte \<Rightarrow> string" where
  "hex_of_byte b = [hex_digit (unat b div 16), hex_digit (unat b mod 16)]"

definition hexdigest :: "bytes \<Rightarrow> string" where
  "hexdigest digest = concat (map hex_of_byte digest)"

text \<open>
  \<open>binascii.a2b_hex\<close>: digits of either case, an error on an odd length or on a
  character that is no hexadecimal digit.
\<close>

definition hex_val :: "char \<Rightarrow> nat option" where
  "hex_val c =
     (let n = (of_char c :: nat) in
      if 48 \<le> n \<and> n \<le> 57 then Some (n - 48)
      else if 97 \<le> n \<and> n \<le> 102 then Some (n - 87)
      else if 65 \<le> n \<and> n \<le> 70 then Some (n - 55)
      else None)"

fun a2b_hex :: "string \<Rightarrow> error + bytes" where
  "a2b_hex [] = Inr []"
| "a2b_hex [c] = Inl BinasciiError"
| "a2b_hex (h # l # rest) =
     (case (hex_val h, hex_val l) of
        (Some a, Some b) \<Rightarrow>
          (case a2b_hex rest of
             Inl e \<Rightarrow> Inl e
           | Inr bs \<Rightarrow> Inr (of_nat (16 * a + b) # bs))
      | _ \<Rightarrow> Inl BinasciiError)"

section \<open>Library primitives\<close>

text \<open>
  \<open>hashlib.sha256\<close>, \<open>base64.b64decode\<close> and \<open>AES.new(key, AES.MODE_ECB).decrypt\<close>
  are library calls; the script's functions are modelled over any implementation of
  them. The two fallible ones return the exception they raise.
\<close>

record primitives =
  sha256 :: "bytes \<Rightarrow> bytes"
  b64decode :: "string \<Rightarrow> error + bytes"
  aes_ecb_decrypt :: "bytes \<Rightarrow> bytes \<Rightarrow> error + bytes"

section \<open>Device descriptor\<close>

text \<open>The characters \<open>str.strip()\<close> removes.\<close>

definition py_isspace :: "char \<Rightarrow> bool" where
  "py_isspace c =
     (let n = (of_char c :: nat) in
      (9 \<le> n \<and> n \<le> 13) \<or> (28 \<le> n \<and> n \<le> 32) \<or> n = 133 \<or> n = 160)"

definition strip :: "string \<Rightarrow> string" where
  "strip s = rev (dropWhile py_isspace (rev (dropWhile py_isspace s)))"

text \<open>\<open>s.split(sep)\<close> with a one-character separator.\<close>

fun split :: "char \<Rightarrow> string \<Rightarrow> string list" where
  "split sep [] = [[]]"
| "split sep (c # cs) =
     (if c = sep then [] # split sep cs
      else (case split sep cs of
              p # ps \<Rightarrow> (c # p) # ps
            | [] \<Rightarrow> [[c]]))"

text \<open>
  \<^verbatim>\<open>
  def get_device_serial(kobo_dir):
      version_file = Path(kobo_dir) / "version"
      if not version_file.exists():
          raise FileNotFoundError(...)
      content = version_file.read_text().strip()
      parts = content.split(",")
      if len(parts) >= 1:
          return parts[0]
      raise ValueError("Could not parse device serial from version file")
  \<close>
  The argument is the text of the version file, \<open>None\<close> when the file does not exist.
\<close>

definition get_device_serial :: "string option \<Rightarrow> error + string" where
  "get_device_serial version_file =
     (case version_file of
        None \<Rightarrow> Inl FileNotFoundError
      | Some text \<Rightarrow>
          (let content = strip text;
               parts = split CHR '','' content
           in if length parts \<ge> 1 then Inr (parts ! 0) else Inl ValueError))"

section \<open>Key derivation\<close>

definition KOBO_HASH_KEYS :: "string list" where
  "KOBO_HASH_KEYS = [''88b3a2e13'', ''XzUhGYdFp'', ''NoCanLook'', ''QJhwzAtXL'']"

text \<open>
  \<^verbatim>\<open>
  def derive_user_key(serial, user_id, hash_key):
      device_id = hashlib.sha256((hash_key + serial).encode("ascii")).hexdigest()
      user_key_hex = hashlib.sha256((device_id + user_id).encode("ascii")).hexdigest()
      user_key = binascii.a2b_hex(user_key_hex[32:])
      return user_key
  \<close>
\<close>

definition derive_user_key :: "primitives \<Rightarrow> string \<Rightarrow> string \<Rightarrow> string \<Rightarrow> error + bytes" where
  "derive_user_key lib serial user_id hash_key =
     (case encode_ascii (hash_key @ serial) of
        Inl e \<Rightarrow> Inl e
      | Inr seeded \<Rightarrow>
          (let device_id = hexdigest (sha256 lib seeded) in
           case encode_ascii (device_id @ user_id) of
             Inl e \<Rightarrow> Inl e
           | Inr salted \<Rightarrow>
               (let user_key_hex = hexdigest (sha256 lib salted)
                in a2b_hex (drop 32 user_key_hex))))"

subsection \<open>The derivation as the specification words it\<close>

text \<open>
  \<open>deviceDigest = SHA-256(ASCII(seed) ++ ASCII(serial))\<close> as 64 lowercase hexadecimal
  characters, \<open>userDigest = SHA-256(ASCII(deviceDigest) ++ ASCII(userId))\<close> likewise,
  \<open>MasterKey = hex-decode(userDigest[32:64])\<close>.
\<close>

definition ASCII :: "string \<Rightarrow> bytes" where
  "ASCII s = map of_char s"

definition spec_hex_nibble :: "char \<Rightarrow> nat" where
  "spec_hex_nibble c =
     (if c \<in> set ''0123456789'' then of_char c - 48 else of_char c - 87)"

fun spec_hex_decode :: "string \<Rightarrow> bytes" where
  "spec_hex_decode (h # l # rest) =
     of_nat (spec_hex_nibble h * 16 + spec_hex_nibble l) # spec_hex_decode rest"
| "spec_hex_decode _ = []"

definition spec_deviceDigest :: "(bytes \<Rightarrow> bytes) \<Rightarrow> string \<Rightarrow> string \<Rightarrow> string" where
  "spec_deviceDigest SHA256 seed serial = hexdigest (SHA256 (ASCII seed @ ASCII serial))"

definition spec_userDigest :: "(bytes \<Rightarrow> bytes) \<Rightarrow> string \<Rightarrow> string \<Rightarrow> string \<Rightarrow> string" where
  "spec_userDigest SHA256 seed serial userId =
     hexdigest (SHA256 (ASCII (spec_deviceDigest SHA256 seed serial) @ ASCII userId))"

definition spec_MasterKey :: "(bytes \<Rightarrow> bytes) \<Rightarrow> string \<Rightarrow> string \<Rightarrow> string \<Rightarrow> bytes" where
  "spec_MasterKey SHA256 seed serial userId =
     spec_hex_decode (take (64 - 32) (drop 32 (spec_userDigest SHA256 seed serial userId)))"

section \<open>Decryption\<close>

text \<open>
  \<^verbatim>\<open>
  def decrypt_content_key(encrypted_key_b64, master_key):
      encrypted_key = base64.b64decode(encrypted_key_b64)
      cipher = AES.new(master_key, AES.MODE_ECB)
      decrypted_key = cipher.decrypt(encrypted_key)
      return decrypted_key
  \<close>
\<close>

definition decrypt_content_key :: "primitives \<Rightarrow> string \<Rightarrow> bytes \<Rightarrow> error + bytes" where
  "decrypt_content_key lib encrypted_key_b64 master_key =
     (case b64decode lib encrypted_key_b64 of
        Inl e \<Rightarrow> Inl e
      | Inr encrypted_key \<Rightarrow> aes_ecb_decrypt lib master_key encrypted_key)"

text \<open>
  \<^verbatim>\<open>
  def decrypt_file_content(encrypted_content, content_key):
      cipher = AES.new(content_key, AES.MODE_ECB)
      decrypted_content = cipher.decrypt(encrypted_content)
      return pkcs7_unpad(decrypted_content)
  \<close>
\<close>

definition decrypt_file_content :: "primitives \<Rightarrow> bytes \<Rightarrow> bytes \<Rightarrow> error + bytes" where
  "decrypt_file_content lib encrypted_content content_key =
     (case aes_ecb_decrypt lib content_key encrypted_content of
        Inl e \<Rightarrow> Inl e
      | Inr decrypted_content \<Rightarrow> pkcs7_unpad decrypted_content)"

section \<open>Archives\<close>

text \<open>
  A \<open>ZipInfo\<close> carries the entry's name and its metadata. An archive is the list of
  its entries in stored order. \<open>ZipFile.read(name)\<close> looks the name up in the
  archive's name table, where a later entry of the same name has replaced an earlier
  one, and raises \<open>KeyError\<close> for a name that is not there. Failures of the file
  system and of decompression are not modelled.
\<close>

record zipinfo =
  filename :: string
  date_time :: "nat list"
  compress_type :: nat
  flag_bits :: int
  external_attr :: int

type_synonym zipfile = "(zipinfo \<times> bytes) list"

definition infolist :: "zipfile \<Rightarrow> zipinfo list" where
  "infolist z = map fst z"

definition zip_read :: "zipfile \<Rightarrow> string \<Rightarrow> error + bytes" where
  "zip_read z name =
     (case filter (\<lambda>entry. filename (fst entry) = name) z of
        [] \<Rightarrow> Inl KeyError
      | e # es \<Rightarrow> Inr (snd (last (e # es))))"

text \<open>\<open>file_path.replace("\\", "/")\<close>\<close>

definition normalize_path :: "string \<Rightarrow> string" where
  "normalize_path file_path = map (\<lambda>c. if c = CHR 0x5C then CHR ''/'' else c) file_path"

section \<open>Transcoding a book\<close>

text \<open>
  A dictionary is the list of its items in iteration order, with pairwise distinct
  keys; \<open>map_of\<close> is the lookup.

  \<^verbatim>\<open>
      decrypted_keys = {}
      for element_id, encrypted_key_b64 in content_keys_map.items():
          decrypted_keys[element_id] = decrypt_content_key(encrypted_key_b64, user_key)
  \<close>
  The loop stands outside every \<open>try\<close>: the first key that fails to decode or decrypt
  raises out of \<open>decrypt_book\<close>.
\<close>

fun decrypt_keys :: "primitives \<Rightarrow> bytes \<Rightarrow> (string \<times> string) list \<Rightarrow> error + (string \<times> bytes) list" where
  "decrypt_keys lib user_key [] = Inr []"
| "decrypt_keys lib user_key ((element_id, encrypted_key_b64) # items) =
     (case decrypt_content_key lib encrypted_key_b64 user_key of
        Inl e \<Rightarrow> Inl e
      | Inr decrypted_key \<Rightarrow>
          (case decrypt_keys lib user_key items of
             Inl e \<Rightarrow> Inl e
           | Inr decrypted_keys \<Rightarrow> Inr ((element_id, decrypted_key) # decrypted_keys)))"

text \<open>The output archive being written and the two counters of the loop.\<close>

record book_state =
  zip_out :: zipfile
  files_decrypted :: nat
  files_copied :: nat

text \<open>
  \<open>ZipFile.writestr(zinfo, data)\<close> with a \<open>ZipInfo\<close> and no compression argument
  keeps the name, the date and the compression type of the \<open>ZipInfo\<close>, and opens the
  entry for writing, which resets part of its metadata:
  \<^verbatim>\<open>
        zinfo.flag_bits = 0x00
        if zinfo.compress_type == ZIP_LZMA:
            zinfo.flag_bits |= _MASK_COMPRESS_OPTION_1
        if not self._seekable:
            zinfo.flag_bits |= _MASK_USE_DATA_DESCRIPTOR
        if not zinfo.external_attr:
            zinfo.external_attr = 0o600 << 16
  \<close>
  where \<open>0o600 << 16\<close> is 25165824.
  The output archive is opened by its path, a seekable file. Size, checksum and offset,
  which follow from the bytes written, are not part of \<open>zipinfo\<close>.
\<close>

definition ZIP_LZMA :: nat where
  "ZIP_LZMA = 14"

definition open_to_write :: "zipinfo \<Rightarrow> zipinfo" where
  "open_to_write zinfo =
     zinfo\<lparr>flag_bits := (if compress_type zinfo = ZIP_LZMA then 2 else 0),
           external_attr := (if external_attr zinfo = 0 then 25165824
                             else external_attr zinfo)\<rparr>"

definition writestr :: "zipinfo \<Rightarrow> bytes \<Rightarrow> book_state \<Rightarrow> book_state" where
  "writestr file_info content st =
     st\<lparr>zip_out := zip_out st @ [(open_to_write file_info, content)]\<rparr>"

text \<open>
  \<^verbatim>\<open>
            for file_info in zip_in.infolist():
                file_path = file_info.filename
                file_content = zip_in.read(file_path)
                normalized_path = file_path.replace("\\", "/")
                if normalized_path in decrypted_keys:
                    try:
                        content_key = decrypted_keys[normalized_path]
                        decrypted_content = decrypt_file_content(file_content, content_key)
                        zip_out.writestr(file_info, decrypted_content)
                        files_decrypted += 1
                    except Exception as e:
                        zip_out.writestr(file_info, file_content)
                else:
                    zip_out.writestr(file_info, file_content)
                    files_copied += 1
  \<close>
\<close>

definition process_entry ::
  "primitives \<Rightarrow> (string \<times> bytes) list \<Rightarrow> zipfile \<Rightarrow> zipinfo \<Rightarrow> book_state \<Rightarrow> error + book_state" where
  "process_entry lib decrypted_keys zip_in file_info st =
     (let file_path = filename file_info in
      case zip_read zip_in file_path of
        Inl e \<Rightarrow> Inl e
      | Inr file_content \<Rightarrow>
          (let normalized_path = normalize_path file_path in
           case map_of decrypted_keys normalized_path of
             Some content_key \<Rightarrow>
               (case decrypt_file_content lib file_content content_key of
                  Inr decrypted_content \<Rightarrow>
                    Inr ((writestr file_info decrypted_content st)
                           \<lparr>files_decrypted := files_decrypted st + 1\<rparr>)
                | Inl e \<Rightarrow> Inr (writestr file_info file_content st))
           | None \<Rightarrow>
               Inr ((writestr file_info file_content st)\<lparr>files_copied := files_copied st + 1\<rparr>)))"

fun process_entries ::
  "primitives \<Rightarrow> (string \<times> bytes) list \<Rightarrow> zipfile \<Rightarrow> zipinfo list \<Rightarrow> book_state \<Rightarrow> error + book_state" where
  "process_entries lib decrypted_keys zip_in [] st = Inr st"
| "process_entries lib decrypted_keys zip_in (file_info # infos) st =
     (case process_entry lib decrypted_keys zip_in file_info st of
        Inl e \<Rightarrow> Inl e
      | Inr st' \<Rightarrow> process_entries lib decrypted_keys zip_in infos st')"

definition decrypt_book ::
  "primitives \<Rightarrow> zipfile \<Rightarrow> bytes \<Rightarrow> (string \<times> string) list \<Rightarrow> error + book_state" where
  "decrypt_book lib input_epub user_key content_keys_map =
     (case decrypt_keys lib user_key content_keys_map of
        Inl e \<Rightarrow> Inl e
      | Inr decrypted_keys \<Rightarrow>
          process_entries lib decrypted_keys input_epub (infolist input_epub)
            \<lparr>zip_out = [], files_decrypted = 0, files_copied = 0\<rparr>)"

section \<open>Key search\<close>

text \<open>\<open>needle in haystack\<close> on \<open>bytes\<close>: the needle occurs as a contiguous run.\<close>

fun bytes_in :: "bytes \<Rightarrow> bytes \<Rightarrow> bool" where
  "bytes_in needle [] = (needle = [])"
| "bytes_in needle (b # rest) = (prefix needle (b # rest) \<or> bytes_in needle rest)"

definition xml_magic :: bytes where
  "xml_magic = map of_char ''<?xml''"

definition html_magic :: bytes where
  "html_magic = map of_char ''<html''"

definition jpeg_magic :: bytes where
  "jpeg_magic = [0xFF, 0xD8, 0xFF]"

text \<open>
  \<^verbatim>\<open>
                    if (
                        b"<?xml" in decrypted[:100]
                        or b"<html" in decrypted[:100]
                        or b"\xff\xd8\xff" in decrypted[:10]
                    ):
  \<close>
\<close>

definition looks_valid :: "bytes \<Rightarrow> bool" where
  "looks_valid decrypted =
     (bytes_in xml_magic (slice_to 100 decrypted)
      \<or> bytes_in html_magic (slice_to 100 decrypted)
      \<or> bytes_in jpeg_magic (slice_to 10 decrypted))"

text \<open>
  The body of the \<open>try\<close> in \<open>main\<close> up to the signature test: the content key of the
  first table entry, that entry's bytes read from the archive by the table's name,
  decryption and the test.
\<close>

definition verify_candidate ::
  "primitives \<Rightarrow> zipfile \<Rightarrow> bytes \<Rightarrow> string \<Rightarrow> string \<Rightarrow> error + bool" where
  "verify_candidate lib input_epub user_key first_element first_key_b64 =
     (case decrypt_content_key lib first_key_b64 user_key of
        Inl e \<Rightarrow> Inl e
      | Inr decrypted_content_key \<Rightarrow>
          (case zip_read input_epub first_element of
             Inl e \<Rightarrow> Inl e
           | Inr encrypted_content \<Rightarrow>
               (case decrypt_file_content lib encrypted_content decrypted_content_key of
                  Inl e \<Rightarrow> Inl e
                | Inr decrypted \<Rightarrow> Inr (looks_valid decrypted))))"

text \<open>
  The whole \<open>try\<close> body: on a match \<open>decrypt_book\<close> runs inside the same \<open>try\<close>.
  \<open>Inl\<close> is an exception (\<open>except Exception: continue\<close>), \<open>Inr None\<close> a
  signature mismatch, \<open>Inr (Some st)\<close> the \<open>break\<close> with \<open>success = True\<close>.
\<close>

definition try_hash_key ::
  "primitives \<Rightarrow> zipfile \<Rightarrow> (string \<times> string) list \<Rightarrow> bytes \<Rightarrow> string \<Rightarrow> string
     \<Rightarrow> error + book_state option" where
  "try_hash_key lib input_epub content_keys user_key first_element first_key_b64 =
     (case verify_candidate lib input_epub user_key first_element first_key_b64 of
        Inl e \<Rightarrow> Inl e
      | Inr matched \<Rightarrow>
          if matched then
            (case decrypt_book lib input_epub user_key content_keys of
               Inl e \<Rightarrow> Inl e
             | Inr st \<Rightarrow> Inr (Some st))
          else Inr None)"

text \<open>
  How step 4 of \<open>main\<close> ends: the book was decrypted with a hash key and the user key
  derived from it; no known hash key worked (\<open>success\<close> stayed false); or an exception
  left the loop.
\<close>

datatype outcome =
    Decrypted string bytes book_state
  | NoHashKeyWorked
  | Fatal error

text \<open>
  \<^verbatim>\<open>
        for hash_key in KOBO_HASH_KEYS:
            user_key = derive_user_key(serial, user_id, hash_key)
            first_element = next(iter(content_keys.keys()))
            first_key_b64 = content_keys[first_element]
            try:
                ...
            except Exception:
                continue
        if not success:
            print("ERROR: Could not decrypt with any known hash key")
            sys.exit(1)
  \<close>
  \<open>main\<close> leaves before the loop when \<open>content_keys\<close> is empty; \<open>next\<close> on an empty
  dictionary would raise \<open>StopIteration\<close>, an exception outside the \<open>try\<close>.
\<close>

fun try_hash_keys ::
  "primitives \<Rightarrow> zipfile \<Rightarrow> string \<Rightarrow> string \<Rightarrow> (string \<times> string) list \<Rightarrow> string list \<Rightarrow> outcome" where
  "try_hash_keys lib input_epub serial user_id content_keys [] = NoHashKeyWorked"
| "try_hash_keys lib input_epub serial user_id content_keys (hash_key # hash_keys) =
     (case derive_user_key lib serial user_id hash_key of
        Inl e \<Rightarrow> Fatal e
      | Inr user_key \<Rightarrow>
          (case content_keys of
             [] \<Rightarrow> Fatal StopIteration
           | (first_element, first_key_b64) # _ \<Rightarrow>
               (case try_hash_key lib input_epub content_keys user_key first_element first_key_b64 of
                  Inr (Some st) \<Rightarrow> Decrypted hash_key user_key st
                | Inr None \<Rightarrow> try_hash_keys lib input_epub serial user_id content_keys hash_keys
                | Inl e \<Rightarrow> try_hash_keys lib input_epub serial user_id content_keys hash_keys)))"

section \<open>Notions used to state the properties\<close>

text \<open>
  What the loop of \<open>decrypt_book\<close> does with one entry: it writes the decrypted
  bytes and counts the entry as decrypted, or it writes the entry's bytes as they are
  and counts it as copied, or (the \<open>except\<close> branch) it writes the entry's bytes as
  they are and counts nothing.
\<close>

datatype disposition = EntryDecrypted | EntryCopied | EntryFellBack

definition disposition_of ::
  "primitives \<Rightarrow> (string \<times> bytes) list \<Rightarrow> zipfile \<Rightarrow> zipinfo \<Rightarrow> disposition" where
  "disposition_of lib decrypted_keys zip_in file_info =
     (case map_of decrypted_keys (normalize_path (filename file_info)) of
        None \<Rightarrow> EntryCopied
      | Some content_key \<Rightarrow>
          (case zip_read zip_in (filename file_info) of
             Inl e \<Rightarrow> EntryFellBack
           | Inr file_content \<Rightarrow>
               (case decrypt_file_content lib file_content content_key of
                  Inl e \<Rightarrow> EntryFellBack
                | Inr decrypted_content \<Rightarrow> EntryDecrypted)))"

definition payload_of ::
  "primitives \<Rightarrow> (string \<times> bytes) list \<Rightarrow> zipfile \<Rightarrow> zipinfo \<Rightarrow> bytes" where
  "payload_of lib decrypted_keys zip_in file_info =
     (case zip_read zip_in (filename file_info) of
        Inl e \<Rightarrow> []
      | Inr file_content \<Rightarrow>
          (case map_of decrypted_keys (normalize_path (filename file_info)) of
             None \<Rightarrow> file_content
           | Some content_key \<Rightarrow>
               (case decrypt_file_content lib file_content content_key of
                  Inl e \<Rightarrow> file_content
                | Inr decrypted_content \<Rightarrow> decrypted_content)))"

text \<open>How many entries of a list the loop treats in a given way.\<close>

definition count_of ::
  "primitives \<Rightarrow> (string \<times> bytes) list \<Rightarrow> zipfile \<Rightarrow> disposition \<Rightarrow> zipinfo list \<Rightarrow> nat" where
  "count_of lib decrypted_keys zip_in d infos =
     length (filter (\<lambda>file_info. disposition_of lib decrypted_keys zip_in file_info = d) infos)"

text \<open>The entry's name, normalised, is a key of the content-key table.\<close>

definition matched :: "(string \<times> string) list \<Rightarrow> zipinfo \<Rightarrow> bool" where
  "matched content_keys_map file_info =
     (map_of content_keys_map (normalize_path (filename file_info)) \<noteq> None)"


text \<open>
  The candidate derived from a hash key passes the signature test of \<open>main\<close>.
\<close>

definition accepted ::
  "primitives \<Rightarrow> zipfile \<Rightarrow> string \<Rightarrow> string \<Rightarrow> (string \<times> string) list \<Rightarrow> string \<Rightarrow> bool" where
  "accepted lib input_epub serial user_id content_keys hash_key =
     (case derive_user_key lib serial user_id hash_key of
        Inl e \<Rightarrow> False
      | Inr user_key \<Rightarrow>
          (case content_keys of
             [] \<Rightarrow> False
           | (first_element, first_key_b64) # _ \<Rightarrow>
               verify_candidate lib input_epub user_key first_element first_key_b64 = Inr True))"

section \<open>An instance of the library primitives\<close>

text \<open>
  To run the model on concrete inputs the three library calls need an implementation.
  Base64 decoding follows the decoder behind \<open>base64.b64decode\<close> in its default,
  non-validating mode: characters outside the alphabet are skipped, a completed
  padding ends the input, and a dangling group raises \<open>binascii.Error\<close>.
  The hash and the cipher are stand-ins with the interface of the real ones: a
  32-byte digest, and a decryption that raises \<open>ValueError\<close> for a key that is not
  16, 24 or 32 bytes long or for data that is not a multiple of 16 bytes.
\<close>

definition b64_index :: "char \<Rightarrow> nat option" where
  "b64_index c =
     (let n = (of_char c :: nat) in
      if 65 \<le> n \<and> n \<le> 90 then Some (n - 65)
      else if 97 \<le> n \<and> n \<le> 122 then Some (n - 71)
      else if 48 \<le> n \<and> n \<le> 57 then Some (n + 4)
      else if n = 43 then Some 62
      else if n = 47 then Some 63
      else None)"

definition emit :: "nat \<Rightarrow> error + bytes \<Rightarrow> error + bytes" where
  "emit v r = (case r of Inl e \<Rightarrow> Inl e | Inr bs \<Rightarrow> Inr (of_nat v # bs))"

fun b64_scan :: "nat \<Rightarrow> nat \<Rightarrow> nat \<Rightarrow> string \<Rightarrow> error + bytes" where
  "b64_scan quad_pos leftchar pads [] = (if quad_pos = 0 then Inr [] else Inl BinasciiError)"
| "b64_scan quad_pos leftchar pads (c # cs) =
     (if c = CHR ''='' then
        (if 2 \<le> quad_pos \<and> 4 \<le> quad_pos + (pads + 1) then Inr []
         else b64_scan quad_pos leftchar (if 2 \<le> quad_pos then pads + 1 else pads) cs)
      else
        (case b64_index c of
           None \<Rightarrow> b64_scan quad_pos leftchar pads cs
         | Some v \<Rightarrow>
             if quad_pos = 0 then b64_scan 1 v 0 cs
             else if quad_pos = 1 then emit (leftchar * 4 + v div 16) (b64_scan 2 (v mod 16) 0 cs)
             else if quad_pos = 2 then emit (leftchar * 16 + v div 4) (b64_scan 3 (v mod 4) 0 cs)
             else emit (leftchar * 64 + v) (b64_scan 0 0 0 cs)))"

definition b64decode_nonstrict :: "string \<Rightarrow> error + bytes" where
  "b64decode_nonstrict s = (if is_ascii s then b64_scan 0 0 0 s else Inl ValueError)"

definition toy_sha256 :: "bytes \<Rightarrow> bytes" where
  "toy_sha256 m = replicate 32 (sum_list m)"

definition toy_ecb_decrypt :: "bytes \<Rightarrow> bytes \<Rightarrow> error + bytes" where
  "toy_ecb_decrypt key data =
     (if length key \<noteq> 16 \<and> length key \<noteq> 24 \<and> length key \<noteq> 32 then Inl ValueError
      else if length data mod 16 \<noteq> 0 then Inl ValueError
      else Inr (map (\<lambda>b. b XOR hd key) data))"

definition toy_lib :: primitives where
  "toy_lib = \<lparr>sha256 = toy_sha256, b64decode = b64decode_nonstrict,
              aes_ecb_decrypt = toy_ecb_decrypt\<rparr>"

section \<open>A sample book\<close>

text \<open>
  A device, an account, and a book of three entries: the unencrypted \<open>mimetype\<close> and
  two chapters encrypted under the instance above, for the user key that the hash key
  \<open>S2\<close> derives. The first chapter decrypts to \<open><html></html>\<close>, the second to
  \<open><?xml version\<close>.
\<close>

definition sample_serial :: string where
  "sample_serial = ''N905B12345''"

definition sample_user_id :: string where
  "sample_user_id = ''abc123''"

definition sample_user_key :: bytes where
  "sample_user_key = replicate 16 60"

definition mimetype_info :: zipinfo where
  "mimetype_info = \<lparr>filename = ''mimetype'', date_time = [2024, 1, 1, 0, 0, 0],
                     compress_type = 0, flag_bits = 0, external_attr = 2175008768\<rparr>"

definition chapter1_info :: zipinfo where
  "chapter1_info = \<lparr>filename = ''OEBPS/chapter1.html'', date_time = [2024, 1, 1, 0, 0, 0],
                     compress_type = 8, flag_bits = 0, external_attr = 2175008768\<rparr>"

definition chapter2_info :: zipinfo where
  "chapter2_info = \<lparr>filename = ''OEBPS/chapter2.xhtml'', date_time = [2024, 1, 1, 0, 0, 0],
                     compress_type = 8, flag_bits = 0, external_attr = 2175008768\<rparr>"

definition mimetype_bytes :: bytes where
  "mimetype_bytes = map of_char ''application/epub+zip''"

definition chapter1_encrypted :: bytes where
  "chapter1_encrypted = [0, 84, 72, 81, 80, 2, 0, 19, 84, 72, 81, 80, 2, 63, 63, 63]"

definition chapter2_encrypted :: bytes where
  "chapter2_encrypted = [16, 19, 84, 65, 64, 12, 90, 73, 94, 95, 69, 67, 66, 47, 47, 47]"

definition sample_book :: zipfile where
  "sample_book = [(mimetype_info, mimetype_bytes), (chapter1_info, chapter1_encrypted),
                  (chapter2_info, chapter2_encrypted)]"

definition sample_keys :: "(string \<times> string) list" where
  "sample_keys = [(''OEBPS/chapter1.html'', ''AAECAwQFBgcICQoLDA0ODw==''),
                  (''OEBPS/chapter2.xhtml'', ''EBESExQVFhcYGRobHB0eHw=='')]"

text \<open>The same table with the second key's base64 text cut short by its padding.\<close>

definition truncated_keys :: "(string \<times> string) list" where
  "truncated_keys = [(''OEBPS/chapter1.html'', ''AAECAwQFBgcICQoLDA0ODw==''),
                     (''OEBPS/chapter2.xhtml'', ''EBESExQVFhcYGRobHB0eHw'')]"

text \<open>
  The same table with the second key cut to 20 characters: valid base64 of 15 bytes,
  not a whole cipher block.
\<close>

definition short_keys :: "(string \<times> string) list" where
  "short_keys = [(''OEBPS/chapter1.html'', ''AAECAwQFBgcICQoLDA0ODw==''),
                 (''OEBPS/chapter2.xhtml'', ''EBESExQVFhcYGRobHB0e'')]"





text \<open>What \<open>decrypt_book\<close> returns for the sample book and for the damaged one.\<close>

definition sample_result :: book_state where
  "sample_result =
     \<lparr>zip_out = [(mimetype_info, mimetype_bytes),
                 (chapter1_info, map of_char ''<html></html>''),
                 (chapter2_info, map of_char ''<?xml version'')],
      files_decrypted = 2, files_copied = 1\<rparr>"


section \<open>Properties of the padding codec\<close>

lemma slice_to_neg_int:
  "slice_to (- int n) xs = (if n = 0 then [] else take (length xs - n) xs)"
  by (simp add: slice_to_def Let_def max_def nat_diff_distrib')

lemma slice_to_nat: "slice_to (int n) xs = take n xs"
  by (simp add: slice_to_def Let_def min_def)

lemma pkcs7_unpad_eq:
  "data \<noteq> [] \<Longrightarrow>
   pkcs7_unpad data =
     Inr (if unat (last data) = 0 then [] else take (length data - unat (last data)) data)"
  using slice_to_neg_int [of "unat (last data)" data]
  by (simp add: pkcs7_unpad_def)

lemma pkcs7_unpad_empty: "pkcs7_unpad [] = Inl IndexError"
  by (simp add: pkcs7_unpad_def)

text \<open>
  C8, as stated, fails on a block of zero bytes: the last byte is 0, removing the last
  0 bytes would leave the input as it is, and \<open>data[:-0]\<close> is the empty sequence.
\<close>

theorem unpad_zero_counterexample:
  "replicate 16 (0::byte) \<noteq> []
   \<and> length (replicate 16 (0::byte)) mod block_size = 0
   \<and> pkcs7_unpad (replicate 16 0)
       \<noteq> Inr (take (length (replicate 16 (0::byte)) - unat (last (replicate 16 (0::byte))))
                (replicate 16 0))"
  by (simp add: block_size_def pkcs7_unpad_def slice_to_def)

text \<open>
  C8, amended: for every non-empty byte sequence whose length is a multiple of the
  block size and whose last byte N is not 0, \<open>pkcs7_unpad\<close> returns the input with its
  last N bytes removed (all of it when N is at least the length).
\<close>

theorem unpad_strips_last_N:
  "data \<noteq> [] \<Longrightarrow> length data mod block_size = 0 \<Longrightarrow> last data \<noteq> 0 \<Longrightarrow>
   pkcs7_unpad data = Inr (take (length data - unat (last data)) data)"
  by (simp add: pkcs7_unpad_eq unat_eq_0)

theorem unpad_strips_last_N_witness:
  "replicate 13 (65::byte) @ [3, 3, 3] \<noteq> []
   \<and> length (replicate 13 (65::byte) @ [3, 3, 3]) mod block_size = 0
   \<and> last (replicate 13 (65::byte) @ [3, 3, 3]) \<noteq> 0
   \<and> pkcs7_unpad (replicate 13 65 @ [3, 3, 3]) = Inr (replicate 13 65)"
  using unpad_strips_last_N [of "replicate 13 (65::byte) @ [3, 3, 3]"]
  by (simp add: block_size_def)

text \<open>
  C10: on every non-empty byte sequence \<open>pkcs7_unpad\<close> returns a value, and when the
  last byte is 0 or at least the length of the sequence that value is the empty
  sequence, not the input.
\<close>

theorem unpad_never_raises:
  "data \<noteq> [] \<Longrightarrow>
   (\<exists>out. pkcs7_unpad data = Inr out)
   \<and> (unat (last data) = 0 \<or> length data \<le> unat (last data) \<longrightarrow>
        pkcs7_unpad data = Inr [] \<and> pkcs7_unpad data \<noteq> Inr data)"
  by (auto simp: pkcs7_unpad_eq)

theorem unpad_never_raises_witness:
  "[1, 2, 0 :: byte] \<noteq> [] \<and> unat (last [1, 2, 0 :: byte]) = 0
   \<and> pkcs7_unpad [1, 2, 0] = Inr []
   \<and> [9, 200 :: byte] \<noteq> [] \<and> length [9, 200 :: byte] \<le> unat (last [9, 200 :: byte])
   \<and> pkcs7_unpad [9, 200] = Inr []"
  using unpad_never_raises [of "[1, 2, 0]"] unpad_never_raises [of "[9, 200]"]
  by simp

section \<open>The signature test\<close>

lemma bytes_in_iff: "bytes_in needle hay \<longleftrightarrow> (\<exists>pre suf. hay = pre @ needle @ suf)"
proof (induction hay)
  case Nil
  then show ?case by auto
next
  case (Cons b rest)
  show ?case
  proof
    assume "bytes_in needle (b # rest)"
    then consider "prefix needle (b # rest)" | "bytes_in needle rest" by auto
    then show "\<exists>pre suf. b # rest = pre @ needle @ suf"
    proof cases
      case 1
      then obtain suf where "b # rest = needle @ suf" by (auto simp: prefix_def)
      then have "b # rest = [] @ needle @ suf" by simp
      then show ?thesis by blast
    next
      case 2
      with Cons.IH obtain pre suf where "rest = pre @ needle @ suf" by blast
      then have "b # rest = (b # pre) @ needle @ suf" by simp
      then show ?thesis by blast
    qed
  next
    assume "\<exists>pre suf. b # rest = pre @ needle @ suf"
    then obtain pre suf where eq: "b # rest = pre @ needle @ suf" by blast
    show "bytes_in needle (b # rest)"
    proof (cases pre)
      case Nil
      with eq have "prefix needle (b # rest)" by (simp add: prefix_def)
      then show ?thesis by simp
    next
      case (Cons p ps)
      with eq have "rest = ps @ needle @ suf" by simp
      with Cons.IH have "bytes_in needle rest" by blast
      then show ?thesis by simp
    qed
  qed
qed

lemma looks_valid_iff:
  "looks_valid d \<longleftrightarrow>
     (\<exists>pre suf. take 100 d = pre @ xml_magic @ suf)
     \<or> (\<exists>pre suf. take 100 d = pre @ html_magic @ suf)
     \<or> (\<exists>pre suf. take 10 d = pre @ jpeg_magic @ suf)"
  using slice_to_nat [of 100 d] slice_to_nat [of 10 d]
  by (simp add: looks_valid_def bytes_in_iff)

text \<open>
  C1, as stated, fails on a buffer that starts with two spaces: it does not begin with
  any of the three signatures, and the test accepts it, because \<open>in\<close> looks for the
  signature anywhere in the window.
\<close>

theorem signature_not_prefix_counterexample:
  "looks_valid (map of_char ''  <?xml version'')
   \<and> \<not> prefix xml_magic (map of_char ''  <?xml version'')
   \<and> \<not> prefix html_magic (map of_char ''  <?xml version'')
   \<and> \<not> prefix jpeg_magic (map of_char ''  <?xml version'')"
  by (simp add: looks_valid_def slice_to_def xml_magic_def html_magic_def jpeg_magic_def)

text \<open>
  C1, amended: the verifier accepts a candidate exactly when the decode, read, decrypt
  and unpad chain yields a buffer and one of the signatures occurs in it as a contiguous
  run, at any offset: \<open><?xml\<close> or \<open><html\<close> wholly within the first 100 bytes, or
  the JPEG marker wholly within the first 10 bytes.
\<close>

theorem verifier_accepts_iff:
  "verify_candidate lib input_epub user_key first_element first_key_b64 = Inr True \<longleftrightarrow>
     (\<exists>content_key encrypted decrypted.
        decrypt_content_key lib first_key_b64 user_key = Inr content_key
        \<and> zip_read input_epub first_element = Inr encrypted
        \<and> decrypt_file_content lib encrypted content_key = Inr decrypted
        \<and> ((\<exists>pre suf. take 100 decrypted = pre @ xml_magic @ suf)
           \<or> (\<exists>pre suf. take 100 decrypted = pre @ html_magic @ suf)
           \<or> (\<exists>pre suf. take 10 decrypted = pre @ jpeg_magic @ suf)))"
  by (auto simp: verify_candidate_def looks_valid_iff split: sum.splits)

section \<open>Reading the device descriptor\<close>

lemma split_nonempty: "split sep s \<noteq> []"
  by (induction s) (auto split: list.splits)

lemma get_device_serial_present:
  "get_device_serial (Some text) = Inr (hd (split CHR '','' (strip text)))"
  using split_nonempty [of "CHR '',''" "strip text"]
  by (cases "split CHR '','' (strip text)") (auto simp: get_device_serial_def Let_def)

lemma split_hd: "hd (split sep s) = takeWhile (\<lambda>c. c \<noteq> sep) s"
  by (induction s) (auto simp: split_nonempty split: list.splits)

text \<open>
  C9: an existing version file that is empty, or holds only white space, has no field
  to read a serial from. \<open>get_device_serial\<close> returns the empty serial for it: the
  test \<open>len(parts) >= 1\<close> cannot fail, since \<open>split\<close> never returns an empty list.
\<close>

theorem empty_descriptor_yields_empty_serial:
  "get_device_serial (Some []) = Inr []
   \<and> get_device_serial (Some [CHR 0x20, CHR 0x0A]) = Inr []"
  by (simp add: get_device_serial_def strip_def py_isspace_def)

lemma get_device_serial_never_malformed: "get_device_serial version_file \<noteq> Inl ValueError"
  by (cases version_file) (simp_all add: get_device_serial_present, simp add: get_device_serial_def)

section \<open>Key derivation against its reference definition\<close>

lemma hex_digits_checked:
  "list_all (\<lambda>n. hex_val (hex_digit n) = Some n \<and> spec_hex_nibble (hex_digit n) = n
              \<and> (of_char (hex_digit n) :: nat) < 128) [0..<16]"
  by code_simp

lemma hex_digit_facts:
  assumes "n < 16"
  shows "hex_val (hex_digit n) = Some n" "spec_hex_nibble (hex_digit n) = n"
    "(of_char (hex_digit n) :: nat) < 128"
proof -
  from assms have "n \<in> set [0..<16]" by simp
  with hex_digits_checked
  have "hex_val (hex_digit n) = Some n \<and> spec_hex_nibble (hex_digit n) = n
          \<and> (of_char (hex_digit n) :: nat) < 128"
    unfolding list_all_iff by blast
  then show "hex_val (hex_digit n) = Some n" "spec_hex_nibble (hex_digit n) = n"
    "(of_char (hex_digit n) :: nat) < 128"
    by simp_all
qed

lemma hex_val_hex_digit:
  assumes "n < 16" shows "hex_val (hex_digit n) = Some n"
  using assms by (rule hex_digit_facts)

lemma spec_hex_nibble_hex_digit:
  assumes "n < 16" shows "spec_hex_nibble (hex_digit n) = n"
  using assms by (rule hex_digit_facts)

lemma hex_digit_ascii:
  assumes "n < 16" shows "(of_char (hex_digit n) :: nat) < 128"
  using assms by (rule hex_digit_facts)

lemma unat_byte_div16: "unat (b :: byte) div 16 < 16"
proof -
  have "unat b < 256" using unsigned_less [of b, where ?'a = nat] by simp
  then show ?thesis by simp
qed

lemma a2b_hex_hexdigest: "a2b_hex (hexdigest bs) = Inr bs"
  by (induction bs)
     (simp_all add: hexdigest_def hex_of_byte_def hex_val_hex_digit unat_byte_div16)

lemma spec_hex_decode_hexdigest: "spec_hex_decode (hexdigest bs) = bs"
  by (induction bs)
     (simp_all add: hexdigest_def hex_of_byte_def spec_hex_nibble_hex_digit unat_byte_div16
        mult.commute)

lemma length_hexdigest: "length (hexdigest bs) = 2 * length bs"
  by (induction bs) (simp_all add: hexdigest_def hex_of_byte_def)

lemma is_ascii_hexdigest: "is_ascii (hexdigest bs)"
  by (induction bs)
     (simp_all add: is_ascii_def hexdigest_def hex_of_byte_def hex_digit_ascii unat_byte_div16)

lemma is_ascii_append: "is_ascii (a @ b) \<longleftrightarrow> is_ascii a \<and> is_ascii b"
  by (simp add: is_ascii_def)

lemma drop_hexdigest: "drop (2 * n) (hexdigest bs) = hexdigest (drop n bs)"
proof (induction bs arbitrary: n)
  case Nil
  then show ?case by (simp add: hexdigest_def)
next
  case (Cons b bs)
  show ?case
  proof (cases n)
    case 0
    then show ?thesis by simp
  next
    case (Suc m)
    have "drop (2 * Suc m) (hexdigest (b # bs)) = drop (2 * m) (hexdigest bs)"
      by (simp add: hexdigest_def hex_of_byte_def)
    with Cons.IH [of m] Suc show ?thesis by simp
  qed
qed

lemma encode_ascii_append:
  "is_ascii a \<Longrightarrow> is_ascii b \<Longrightarrow> encode_ascii (a @ b) = Inr (ASCII a @ ASCII b)"
  by (simp add: encode_ascii_def is_ascii_append ASCII_def)

text \<open>
  C3: for ASCII seed, serial and user id, and a hash with 32-byte digests,
  \<open>derive_user_key\<close> returns the master key of the reference definition; the two
  digests are 64 characters long and the key 16 bytes.
\<close>

theorem derive_user_key_refines_spec:
  assumes ascii: "is_ascii seed" "is_ascii serial" "is_ascii userId"
    and digest: "\<And>m. length (sha256 lib m) = 32"
  shows "derive_user_key lib serial userId seed = Inr (spec_MasterKey (sha256 lib) seed serial userId)
         \<and> length (spec_deviceDigest (sha256 lib) seed serial) = 64
         \<and> length (spec_userDigest (sha256 lib) seed serial userId) = 64
         \<and> length (spec_MasterKey (sha256 lib) seed serial userId) = 16"
proof -
  let ?dev = "spec_deviceDigest (sha256 lib) seed serial"
  let ?usr = "spec_userDigest (sha256 lib) seed serial userId"
  let ?d2 = "sha256 lib (ASCII ?dev @ ASCII userId)"
  have len_dev: "length ?dev = 64"
    by (simp add: spec_deviceDigest_def length_hexdigest digest)
  have len_usr: "length ?usr = 64"
    by (simp add: spec_userDigest_def length_hexdigest digest)
  have usr: "?usr = hexdigest ?d2"
    by (simp add: spec_userDigest_def)
  have tail: "drop 32 ?usr = hexdigest (drop 16 ?d2)"
    using drop_hexdigest [of 16 ?d2] by (simp add: usr)
  have window: "take (64 - 32) (drop 32 ?usr) = drop 32 ?usr"
    using len_usr by simp
  have "spec_MasterKey (sha256 lib) seed serial userId = spec_hex_decode (drop 32 ?usr)"
    by (simp only: spec_MasterKey_def window)
  also have "\<dots> = spec_hex_decode (hexdigest (drop 16 ?d2))"
    by (simp only: tail)
  also have "\<dots> = drop 16 ?d2"
    by (rule spec_hex_decode_hexdigest)
  finally have key: "spec_MasterKey (sha256 lib) seed serial userId = drop 16 ?d2" .
  have len_key: "length (spec_MasterKey (sha256 lib) seed serial userId) = 16"
    by (simp add: key digest)
  have step1: "encode_ascii (seed @ serial) = Inr (ASCII seed @ ASCII serial)"
    using ascii by (simp add: encode_ascii_append)
  have step2: "encode_ascii (?dev @ userId) = Inr (ASCII ?dev @ ASCII userId)"
    using ascii by (simp add: encode_ascii_append spec_deviceDigest_def is_ascii_hexdigest)
  have "derive_user_key lib serial userId seed = a2b_hex (drop 32 ?usr)"
    using step1 step2
    by (simp add: derive_user_key_def Let_def spec_userDigest_def spec_deviceDigest_def)
  also have "\<dots> = Inr (drop 16 ?d2)"
    unfolding tail by (rule a2b_hex_hexdigest)
  finally show ?thesis using key len_dev len_usr len_key by simp
qed


theorem derive_user_key_refines_spec_witness:
  "is_ascii ''S2'' \<and> is_ascii sample_serial \<and> is_ascii sample_user_id
   \<and> (\<forall>m. length (sha256 toy_lib m) = 32)
   \<and> derive_user_key toy_lib sample_serial sample_user_id ''S2''
       = Inr (spec_MasterKey (sha256 toy_lib) ''S2'' sample_serial sample_user_id)
   \<and> length (spec_MasterKey (sha256 toy_lib) ''S2'' sample_serial sample_user_id) = 16"
proof -
  have a: "is_ascii ''S2''" "is_ascii sample_serial" "is_ascii sample_user_id"
    by (simp_all add: is_ascii_def sample_serial_def sample_user_id_def)
  have d: "length (sha256 toy_lib m) = 32" for m
    by (simp add: toy_lib_def toy_sha256_def)
  show ?thesis
    using a d derive_user_key_refines_spec [OF a d] by simp
qed

section \<open>Transcoding\<close>

lemma zip_read_member:
  "file_info \<in> set (infolist z) \<Longrightarrow> \<exists>c. zip_read z (filename file_info) = Inr c"
proof -
  assume "file_info \<in> set (infolist z)"
  then obtain c where "(file_info, c) \<in> set z" by (auto simp: infolist_def)
  then have "(file_info, c) \<in> set (filter (\<lambda>entry. filename (fst entry) = filename file_info) z)"
    by simp
  then have "filter (\<lambda>entry. filename (fst entry) = filename file_info) z \<noteq> []"
    by (metis empty_iff list.set(1))
  then show ?thesis
    by (cases "filter (\<lambda>entry. filename (fst entry) = filename file_info) z")
       (simp_all add: zip_read_def)
qed



lemma process_entry_eq:
  assumes "zip_read zip_in (filename file_info) = Inr c"
  shows "process_entry lib dk zip_in file_info st =
     Inr \<lparr>zip_out = zip_out st @ [(open_to_write file_info, payload_of lib dk zip_in file_info)],
          files_decrypted = files_decrypted st
            + (if disposition_of lib dk zip_in file_info = EntryDecrypted then 1 else 0),
          files_copied = files_copied st
            + (if disposition_of lib dk zip_in file_info = EntryCopied then 1 else 0)\<rparr>"
  using assms
  by (simp add: process_entry_def payload_of_def disposition_of_def writestr_def Let_def
        split: option.splits sum.splits)

lemma process_entries_eq:
  "set infos \<subseteq> set (infolist zip_in) \<Longrightarrow>
   process_entries lib dk zip_in infos st =
     Inr \<lparr>zip_out = zip_out st @ map (\<lambda>fi. (open_to_write fi, payload_of lib dk zip_in fi)) infos,
          files_decrypted = files_decrypted st + count_of lib dk zip_in EntryDecrypted infos,
          files_copied = files_copied st + count_of lib dk zip_in EntryCopied infos\<rparr>"
proof (induction infos arbitrary: st)
  case Nil
  then show ?case by (simp add: count_of_def)
next
  case (Cons fi infos)
  from Cons.prems obtain c where c: "zip_read zip_in (filename fi) = Inr c"
    using zip_read_member [of fi zip_in] by auto
  from Cons.prems have sub: "set infos \<subseteq> set (infolist zip_in)" by simp
  show ?case
    by (simp add: process_entry_eq [OF c] Cons.IH [OF sub] count_of_def)
qed


lemma decrypt_keys_fails:
  "(element_id, encrypted_key_b64) \<in> set items \<Longrightarrow>
   decrypt_content_key lib encrypted_key_b64 user_key = Inl e \<Longrightarrow>
   \<exists>e'. decrypt_keys lib user_key items = Inl e'"
  by (induction items) (auto split: sum.splits)

lemma decrypt_keys_succeeds:
  "(\<And>element_id encrypted_key_b64. (element_id, encrypted_key_b64) \<in> set items \<Longrightarrow>
      \<exists>k. decrypt_content_key lib encrypted_key_b64 user_key = Inr k) \<Longrightarrow>
   \<exists>dk. decrypt_keys lib user_key items = Inr dk"
proof (induction items)
  case Nil
  then show ?case by simp
next
  case (Cons item items)
  obtain element_id v where item: "item = (element_id, v)" by (cases item)
  from Cons.prems [of element_id v] item obtain k where k: "decrypt_content_key lib v user_key = Inr k"
    by auto
  from Cons obtain dk where "decrypt_keys lib user_key items = Inr dk" by auto
  with k item show ?case by simp
qed


lemma decrypt_book_eq:
  assumes "decrypt_keys lib user_key content_keys_map = Inr dk"
  shows "decrypt_book lib input_epub user_key content_keys_map =
     Inr \<lparr>zip_out = map (\<lambda>fi. (open_to_write fi, payload_of lib dk input_epub fi))
                      (infolist input_epub),
          files_decrypted = count_of lib dk input_epub EntryDecrypted (infolist input_epub),
          files_copied = count_of lib dk input_epub EntryCopied (infolist input_epub)\<rparr>"
  using assms process_entries_eq [of "infolist input_epub" input_epub lib dk]
  by (simp add: decrypt_book_def)

lemma decrypt_book_Inr_iff:
  "(\<exists>st. decrypt_book lib input_epub user_key content_keys_map = Inr st)
     \<longleftrightarrow> (\<exists>dk. decrypt_keys lib user_key content_keys_map = Inr dk)"
  by (cases "decrypt_keys lib user_key content_keys_map")
     (simp_all add: decrypt_book_eq, simp add: decrypt_book_def)


text \<open>
  Once every content key of the table has been decrypted, the loop over the entries
  cannot fail: an entry whose own decryption or unpadding raises is written with its
  original bytes.
\<close>

lemma fallback_writes_original:
  "zip_read zip_in (filename file_info) = Inr c \<Longrightarrow>
   disposition_of lib dk zip_in file_info = EntryFellBack \<Longrightarrow>
   payload_of lib dk zip_in file_info = c"
  by (auto simp: disposition_of_def payload_of_def split: option.splits sum.splits)












text \<open>
  C2: as soon as one entry of the content-key table has an encrypted key that fails to
  decode or decrypt, \<open>decrypt_book\<close> raises: no entry is written, none falls back and
  none is decrypted. The keys of the whole table are decrypted before the archive is
  opened, outside the \<open>try\<close> that guards the decryption of an entry.
\<close>

theorem one_bad_key_aborts_transcode:
  "(element_id, encrypted_key_b64) \<in> set content_keys_map \<Longrightarrow>
   decrypt_content_key lib encrypted_key_b64 user_key = Inl e \<Longrightarrow>
   \<exists>e'. decrypt_book lib input_epub user_key content_keys_map = Inl e'"
proof -
  assume "(element_id, encrypted_key_b64) \<in> set content_keys_map"
    and "decrypt_content_key lib encrypted_key_b64 user_key = Inl e"
  then obtain e' where "decrypt_keys lib user_key content_keys_map = Inl e'"
    using decrypt_keys_fails by blast
  then show ?thesis by (simp add: decrypt_book_def)
qed

theorem one_bad_key_aborts_transcode_witness:
  "(''OEBPS/chapter2.xhtml'', ''EBESExQVFhcYGRobHB0eHw'') \<in> set truncated_keys
   \<and> decrypt_content_key toy_lib ''EBESExQVFhcYGRobHB0eHw'' sample_user_key = Inl BinasciiError
   \<and> (\<exists>e'. decrypt_book toy_lib sample_book sample_user_key truncated_keys = Inl e')"
proof -
  have m: "(''OEBPS/chapter2.xhtml'', ''EBESExQVFhcYGRobHB0eHw'') \<in> set truncated_keys"
    by (simp add: truncated_keys_def)
  have f: "decrypt_content_key toy_lib ''EBESExQVFhcYGRobHB0eHw'' sample_user_key = Inl BinasciiError"
    by code_simp
  from one_bad_key_aborts_transcode [OF m f] m f show ?thesis by blast
qed

text \<open>
  C7: the second chapter of the sample book is matched in the content-key table, and the
  first step of its decryption chain, decrypting its content key, fails because the key
  is one byte short of a cipher block. \<open>decrypt_book\<close> ends with that \<open>ValueError\<close>
  instead of writing the chapter's original bytes and going on.
\<close>

theorem misaligned_key_aborts_transcode:
  "matched short_keys chapter2_info
   \<and> decrypt_content_key toy_lib ''EBESExQVFhcYGRobHB0e'' sample_user_key = Inl ValueError
   \<and> decrypt_book toy_lib sample_book sample_user_key short_keys = Inl ValueError"
proof -
  have 1: "matched short_keys chapter2_info" by code_simp
  have 2: "decrypt_content_key toy_lib ''EBESExQVFhcYGRobHB0e'' sample_user_key = Inl ValueError"
    by code_simp
  have 3: "decrypt_book toy_lib sample_book sample_user_key short_keys = Inl ValueError"
    by code_simp
  from 1 2 3 show ?thesis by blast
qed

section \<open>Properties of the key search\<close>

text \<open>
  One round of the loop, and what the search returns when the transcode of an accepted
  candidate completes, when no candidate is accepted, and when every transcode raises.
\<close>

lemma try_hash_keys_step:
  assumes "derive_user_key lib serial user_id h = Inr k"
    and "content_keys = (first_element, first_key_b64) # others"
  shows "try_hash_keys lib zip_in serial user_id content_keys (h # hs) =
     (if accepted lib zip_in serial user_id content_keys h then
        (case decrypt_book lib zip_in k content_keys of
           Inr st \<Rightarrow> Decrypted h k st
         | Inl e \<Rightarrow> try_hash_keys lib zip_in serial user_id content_keys hs)
      else try_hash_keys lib zip_in serial user_id content_keys hs)"
  using assms
  by (auto simp: accepted_def try_hash_key_def split: sum.splits option.splits)

lemma try_hash_keys_none_accepted:
  assumes "content_keys \<noteq> []"
    and "\<And>h. h \<in> set hash_keys \<Longrightarrow> \<exists>k. derive_user_key lib serial user_id h = Inr k"
    and "\<And>h. h \<in> set hash_keys \<Longrightarrow> \<not> accepted lib zip_in serial user_id content_keys h"
  shows "try_hash_keys lib zip_in serial user_id content_keys hash_keys = NoHashKeyWorked"
  using assms(2,3)
proof (induction hash_keys)
  case Nil
  then show ?case by simp
next
  case (Cons h hs)
  from assms(1) obtain fe fk others where ck: "content_keys = (fe, fk) # others"
    by (cases content_keys) auto
  from Cons.prems(1) [of h] obtain k where k: "derive_user_key lib serial user_id h = Inr k"
    by auto
  have "\<not> accepted lib zip_in serial user_id content_keys h" using Cons.prems(2) by simp
  moreover have "try_hash_keys lib zip_in serial user_id content_keys hs = NoHashKeyWorked"
    using Cons by simp
  ultimately show ?case by (simp add: try_hash_keys_step [OF k ck] del: try_hash_keys.simps)
qed

lemma try_hash_keys_first_accepted:
  assumes "content_keys \<noteq> []"
    and "\<And>x. x \<in> set before \<Longrightarrow> \<exists>k. derive_user_key lib serial user_id x = Inr k"
    and "\<And>x. x \<in> set before \<Longrightarrow> \<not> accepted lib zip_in serial user_id content_keys x"
    and "accepted lib zip_in serial user_id content_keys h"
    and "derive_user_key lib serial user_id h = Inr k"
    and "decrypt_book lib zip_in k content_keys = Inr st"
  shows "try_hash_keys lib zip_in serial user_id content_keys (before @ h # after)
           = Decrypted h k st"
  using assms(2,3)
proof (induction before)
  case Nil
  from assms(1) obtain fe fk others where ck: "content_keys = (fe, fk) # others"
    by (cases content_keys) auto
  show ?case using assms(4,6) by (simp add: try_hash_keys_step [OF assms(5) ck] del: try_hash_keys.simps)
next
  case (Cons x xs)
  from assms(1) obtain fe fk others where ck: "content_keys = (fe, fk) # others"
    by (cases content_keys) auto
  from Cons.prems(1) [of x] obtain kx where kx: "derive_user_key lib serial user_id x = Inr kx"
    by auto
  have "\<not> accepted lib zip_in serial user_id content_keys x" using Cons.prems(2) by simp
  moreover have "try_hash_keys lib zip_in serial user_id content_keys (xs @ h # after)
                   = Decrypted h k st"
    using Cons by simp
  ultimately show ?case by (simp add: try_hash_keys_step [OF kx ck] del: try_hash_keys.simps)
qed

lemma try_hash_keys_accepted_but_aborted:
  assumes "content_keys \<noteq> []"
    and "\<And>h. h \<in> set hash_keys \<Longrightarrow> \<exists>k. derive_user_key lib serial user_id h = Inr k"
    and "\<And>h k. derive_user_key lib serial user_id h = Inr k \<Longrightarrow>
           \<exists>e. decrypt_book lib zip_in k content_keys = Inl e"
  shows "try_hash_keys lib zip_in serial user_id content_keys hash_keys = NoHashKeyWorked"
  using assms(2)
proof (induction hash_keys)
  case Nil
  then show ?case by simp
next
  case (Cons h hs)
  from assms(1) obtain fe fk others where ck: "content_keys = (fe, fk) # others"
    by (cases content_keys) auto
  from Cons.prems [of h] obtain k where k: "derive_user_key lib serial user_id h = Inr k"
    by auto
  from assms(3) [OF k] obtain e where e: "decrypt_book lib zip_in k content_keys = Inl e"
    by auto
  have "try_hash_keys lib zip_in serial user_id content_keys hs = NoHashKeyWorked"
    using Cons by simp
  then show ?case by (simp add: try_hash_keys_step [OF k ck] e del: try_hash_keys.simps)
qed

text \<open>
  C4: with the second key of the table cut short, the candidate of hash key \<open>S2\<close>
  passes the signature test, \<open>decrypt_book\<close> then raises inside the same \<open>try\<close>, the
  exception is taken for a failed candidate, and the search ends with no hash key
  having worked although a candidate was accepted.
\<close>

theorem accepted_candidate_lost:
  "accepted toy_lib sample_book sample_serial sample_user_id truncated_keys ''S2''
   \<and> try_hash_keys toy_lib sample_book sample_serial sample_user_id truncated_keys
        [''S1'', ''S2'', ''S3''] = NoHashKeyWorked"
proof -
  have 1: "accepted toy_lib sample_book sample_serial sample_user_id truncated_keys ''S2''"
    by code_simp
  have 2: "try_hash_keys toy_lib sample_book sample_serial sample_user_id truncated_keys
        [''S1'', ''S2'', ''S3''] = NoHashKeyWorked"
    by code_simp
  from 1 2 show ?thesis by blast
qed

lemma sample_search_succeeds:
  "try_hash_keys toy_lib sample_book sample_serial sample_user_id sample_keys
     [''S1'', ''S2'', ''S3''] = Decrypted ''S2'' sample_user_key sample_result"
  by code_simp

end
